theory Spec2Isabelle
  imports Main
begin

section \<open>JavaScript numbers, strings and the platform\<close>

text \<open>
  The program compares time values obtained from \<^verbatim>\<open>new Date(s).getTime()\<close>. Such a
  value is an integral number of milliseconds since the epoch, or \<^verbatim>\<open>NaN\<close> when the
  string does not parse; \<^verbatim>\<open>resolveProofDate\<close> also uses \<^verbatim>\<open>Infinity\<close>. Time values are
  integers of magnitude at most 8.64e15, which a double represents exactly, and every
  difference of two of them is only compared with a small integer threshold, so the
  finite numbers are modelled as \<open>int\<close>.
\<close>

datatype jsnum = NaN | Fin int | PosInfinity | NegInfinity

text \<open>The relational operators: every comparison with \<^verbatim>\<open>NaN\<close> is false.\<close>

fun js_less :: "jsnum \<Rightarrow> jsnum \<Rightarrow> bool" where
  "js_less (Fin a) (Fin b) = (a < b)"
| "js_less (Fin a) PosInfinity = True"
| "js_less NegInfinity (Fin b) = True"
| "js_less NegInfinity PosInfinity = True"
| "js_less _ _ = False"

fun js_le :: "jsnum \<Rightarrow> jsnum \<Rightarrow> bool" where
  "js_le NaN _ = False"
| "js_le _ NaN = False"
| "js_le a b = (a = b \<or> js_less a b)"

fun js_greater :: "jsnum \<Rightarrow> jsnum \<Rightarrow> bool" where
  "js_greater a b = js_less b a"

fun js_minus :: "jsnum \<Rightarrow> jsnum \<Rightarrow> jsnum" where
  "js_minus (Fin a) (Fin b) = Fin (a - b)"
| "js_minus NaN _ = NaN"
| "js_minus _ NaN = NaN"
| "js_minus PosInfinity PosInfinity = NaN"
| "js_minus NegInfinity NegInfinity = NaN"
| "js_minus PosInfinity _ = PosInfinity"
| "js_minus NegInfinity _ = NegInfinity"
| "js_minus (Fin a) PosInfinity = NegInfinity"
| "js_minus (Fin a) NegInfinity = PosInfinity"

fun js_abs :: "jsnum \<Rightarrow> jsnum" where
  "js_abs (Fin a) = Fin \<bar>a\<bar>"
| "js_abs NaN = NaN"
| "js_abs _ = PosInfinity"

text \<open>\<^verbatim>\<open>x % m\<close> for a finite non-zero \<open>m\<close>: the sign follows the dividend.\<close>

fun js_rem :: "jsnum \<Rightarrow> int \<Rightarrow> jsnum" where
  "js_rem (Fin a) m = Fin (sgn a * (\<bar>a\<bar> mod \<bar>m\<bar>))"
| "js_rem _ m = NaN"

text \<open>\<^verbatim>\<open>Math.round(x / d)\<close> for a positive integer \<open>d\<close>: halves round up.\<close>

fun js_round_div :: "jsnum \<Rightarrow> int \<Rightarrow> jsnum" where
  "js_round_div (Fin a) d = Fin ((2 * a + d) div (2 * d))"
| "js_round_div x d = x"

function show_nat :: "nat \<Rightarrow> string" where
  "show_nat n =
     (if n < 10 then [''0123456789'' ! n]
      else show_nat (n div 10) @ [''0123456789'' ! (n mod 10)])"
  by pat_completeness auto
termination
  by (relation "measure id") auto

declare show_nat.simps [simp del]

text \<open>\<^verbatim>\<open>String(n)\<close> for a number (integral, below 1e21 in magnitude, when finite).\<close>

definition show_int :: "int \<Rightarrow> string" where
  "show_int i = (if i < 0 then CHR ''-'' # show_nat (nat (- i)) else show_nat (nat i))"

fun show_jsnum :: "jsnum \<Rightarrow> string" where
  "show_jsnum NaN = ''NaN''"
| "show_jsnum (Fin i) = show_int i"
| "show_jsnum PosInfinity = ''Infinity''"
| "show_jsnum NegInfinity = ''-Infinity''"

text \<open>
  Strings are lists of characters. The case mappings and the index-based operations
  below agree with JavaScript's on ASCII text (GitHub logins, hex digests, ISO dates);
  characters outside ASCII are left unchanged by the case mappings.
\<close>

definition is_digit :: "char \<Rightarrow> bool" where
  "is_digit c = (c \<in> set ''0123456789'')"

definition toLowerChar :: "char \<Rightarrow> char" where
  "toLowerChar c =
     (let n = (of_char c :: nat) in if 65 \<le> n \<and> n \<le> 90 then char_of (n + 32) else c)"

definition toUpperChar :: "char \<Rightarrow> char" where
  "toUpperChar c =
     (let n = (of_char c :: nat) in if 97 \<le> n \<and> n \<le> 122 then char_of (n - 32) else c)"

definition toLowerCase :: "string \<Rightarrow> string" where
  "toLowerCase s = map toLowerChar s"

definition toUpperCase :: "string \<Rightarrow> string" where
  "toUpperCase s = map toUpperChar s"

text \<open>\<^verbatim>\<open>s.padStart(n, '0')\<close>\<close>

definition padStart0 :: "nat \<Rightarrow> string \<Rightarrow> string" where
  "padStart0 n s = replicate (n - length s) CHR ''0'' @ s"

text \<open>
  \<^verbatim>\<open>s.replace(pat, rep)\<close> with a string pattern: the first occurrence only (\<open>rep\<close>
  without \<^verbatim>\<open>$\<close> patterns).
\<close>

fun replace_first :: "string \<Rightarrow> string \<Rightarrow> string \<Rightarrow> string" where
  "replace_first pat rep [] = (if pat = [] then rep else [])"
| "replace_first pat rep (c # cs) =
     (if take (length pat) (c # cs) = pat then rep @ drop (length pat) (c # cs)
      else c # replace_first pat rep cs)"

text \<open>\<^verbatim>\<open>xs.join(sep)\<close>\<close>

fun join :: "string \<Rightarrow> string list \<Rightarrow> string" where
  "join sep [] = []"
| "join sep [x] = x"
| "join sep (x # y # ys) = x @ sep @ join sep (y # ys)"

text \<open>
  \<^verbatim>\<open>parseInt(s, 16)\<close>: leading white space, an optional sign, an optional \<^verbatim>\<open>0x\<close>, then
  the longest run of hexadecimal digits; \<^verbatim>\<open>NaN\<close> when that run is empty.
\<close>

definition is_space :: "char \<Rightarrow> bool" where
  "is_space c = (of_char c \<in> {9, 10, 11, 12, 13, 32 :: nat})"

definition hex_val :: "char \<Rightarrow> nat option" where
  "hex_val c =
     (let n = (of_char c :: nat) in
      if 48 \<le> n \<and> n \<le> 57 then Some (n - 48)
      else if 97 \<le> n \<and> n \<le> 102 then Some (n - 87)
      else if 65 \<le> n \<and> n \<le> 70 then Some (n - 55)
      else None)"

definition parseInt16 :: "string \<Rightarrow> jsnum" where
  "parseInt16 s =
     (let s1 = dropWhile is_space s;
          neg = (s1 \<noteq> [] \<and> hd s1 = CHR ''-'');
          s2 = (if s1 \<noteq> [] \<and> (hd s1 = CHR ''-'' \<or> hd s1 = CHR ''+'') then tl s1 else s1);
          s3 = (if take 2 s2 = ''0x'' \<or> take 2 s2 = ''0X'' then drop 2 s2 else s2);
          ds = takeWhile (\<lambda>c. hex_val c \<noteq> None) s3;
          v = foldl (\<lambda>a c. 16 * a + int (the (hex_val c))) 0 ds
      in if ds = [] then NaN else Fin (if neg then - v else v))"

text \<open>
  \<^verbatim>\<open>JSON.stringify\<close> of a string: the quotation mark, the backslash and the control
  characters are escaped, everything else is copied.
\<close>

definition json_escape_char :: "char \<Rightarrow> string" where
  "json_escape_char c =
     (let n = (of_char c :: nat) in
      if n = 34 then [char_of (92 :: nat), char_of (34 :: nat)]
      else if n = 92 then [char_of (92 :: nat), char_of (92 :: nat)]
      else if n = 8 then [char_of (92 :: nat), CHR ''b'']
      else if n = 12 then [char_of (92 :: nat), CHR ''f'']
      else if n = 10 then [char_of (92 :: nat), CHR ''n'']
      else if n = 13 then [char_of (92 :: nat), CHR ''r'']
      else if n = 9 then [char_of (92 :: nat), CHR ''t'']
      else if n < 32 then [char_of (92 :: nat), CHR ''u'', CHR ''0'', CHR ''0'',
                           ''0123456789abcdef'' ! (n div 16), ''0123456789abcdef'' ! (n mod 16)]
      else [c])"

definition json_string :: "string \<Rightarrow> string" where
  "json_string s = char_of (34 :: nat) # concat (map json_escape_char s) @ [char_of (34 :: nat)]"

text \<open>
  \<^verbatim>\<open>Date\<close> belongs to the JavaScript runtime, not to the repository, so its two
  operations that the program uses are parameters of the model: \<open>dateParse\<close> is the
  time value of \<^verbatim>\<open>new Date(s)\<close> (\<open>None\<close> for an invalid date), \<open>toISOString\<close> is
  \<^verbatim>\<open>Date.prototype.toISOString\<close> on a valid time value.
\<close>

record platform =
  dateParse :: "string \<Rightarrow> int option"
  toISOString :: "int \<Rightarrow> string"

text \<open>\<^verbatim>\<open>new Date(s).getTime()\<close>\<close>

definition getTime :: "platform \<Rightarrow> string \<Rightarrow> jsnum" where
  "getTime P s = (case dateParse P s of None \<Rightarrow> NaN | Some t \<Rightarrow> Fin t)"

text \<open>Truthiness of a string, and of an optional string property (absent is \<open>None\<close>).\<close>

definition truthy :: "string \<Rightarrow> bool" where
  "truthy s = (s \<noteq> [])"

fun truthy_opt :: "string option \<Rightarrow> bool" where
  "truthy_opt None = False"
| "truthy_opt (Some s) = truthy s"

text \<open>A nullable string inside a template literal.\<close>

fun show_nullable :: "string option \<Rightarrow> string" where
  "show_nullable None = ''null''"
| "show_nullable (Some s) = s"

section \<open>Shared constants and types (core/types.ts)\<close>

definition CUTOFF_DATE :: string where
  "CUTOFF_DATE = ''2025-02-21T00:00:00Z''"

datatype EraKey = LAST_GEN | AI_NATIVE

fun era_string :: "EraKey \<Rightarrow> string" where
  "era_string LAST_GEN = ''LAST_GEN''"
| "era_string AI_NATIVE = ''AI_NATIVE''"

definition CERTIFICATE_VERSION :: string where
  "CERTIFICATE_VERSION = ''1.0''"

definition CERTIFICATE_SALT :: string where
  "CERTIFICATE_SALT = ''lastgen_v1''"

definition THIRTY_DAYS_MS :: int where
  "THIRTY_DAYS_MS = 30 * 24 * 60 * 60 * 1000"

text \<open>
  Field names are those of the interfaces. Where two interfaces share a field name, or
  the name is taken by HOL or Isar, the field is renamed: \<open>id'\<close> (\<^verbatim>\<open>GitHubUser.id\<close>),
  \<open>identityName\<close> (\<^verbatim>\<open>CertificateIdentity.name\<close>), \<open>type'\<close> and \<open>proof'\<close>
  (\<^verbatim>\<open>Certificate.type\<close>, \<^verbatim>\<open>Certificate.proof\<close>), \<open>detailSha\<close>, \<open>detailCommitterDate\<close>,
  \<open>detailMessage\<close> (\<^verbatim>\<open>CommitDetail.sha\<close>, \<^verbatim>\<open>.committerDate\<close>, \<^verbatim>\<open>.message\<close>),
  \<open>resultCertificateNumber\<close> and \<open>resultUsername\<close> (\<^verbatim>\<open>VerifyCertificateResult\<close>).
  An optional (\<^verbatim>\<open>?\<close>) or nullable property is an \<open>option\<close>.
\<close>

record GitHubUser =
  login :: string
  id' :: int
  name :: "string option"
  createdAt :: string

record FirstCommit =
  date :: string
  repo :: string
  sha :: string
  message :: string
  repoCreatedAt :: "string option"
  committerDate :: "string option"

record CertificateIdentity =
  username :: string
  githubId :: int
  identityName :: "string option"

record CertificateProof =
  accountCreated :: string
  firstCommit :: FirstCommit
  proofDate :: string

record CertificateVerification =
  hash :: string
  salt :: string

record Certificate =
  version :: string
  type' :: string
  identity :: CertificateIdentity
  proof' :: CertificateProof
  era :: EraKey
  verification :: CertificateVerification
  certificateNumber :: string
  issuedAt :: string

record CommitDetail =
  detailSha :: string
  authorLogin :: "string option"
  committerLogin :: "string option"
  authorEmail :: "string option"
  authorDate :: "string option"
  detailCommitterDate :: "string option"
  authorId :: "int option"
  verificationReason :: "string option"
  isRootCommit :: bool
  detailMessage :: string
  verified :: bool

record VerifyResult =
  check :: string
  passed :: bool
  detail :: string

text \<open>
  \<^verbatim>\<open>HashFn\<close> is injected by the caller (SHA-256 in both front ends). Its promise is
  taken to resolve: the model is a function from the payload to the digest text.
\<close>

type_synonym HashFn = "string \<Rightarrow> string"

section \<open>Era classification, proof date, hashing, certificates (core/proof.ts)\<close>

definition classifyEra :: "platform \<Rightarrow> string \<Rightarrow> EraKey" where
  "classifyEra P pd =
     (let cutoff = getTime P CUTOFF_DATE;
          dateTime = getTime P pd
      in if js_less dateTime cutoff then LAST_GEN else AI_NATIVE)"

definition getEffectiveCommitDate :: "platform \<Rightarrow> FirstCommit \<Rightarrow> string" where
  "getEffectiveCommitDate P commit =
     (if \<not> truthy_opt (committerDate commit) then date commit
      else
        let authorTime = getTime P (date commit);
            committerTime = getTime P (the (committerDate commit))
        in if js_greater (js_minus committerTime authorTime) (Fin THIRTY_DAYS_MS)
           then the (committerDate commit)
           else date commit)"

text \<open>
  \<open>now\<close> is the value that reading the clock (\<^verbatim>\<open>new Date()\<close>) returns; it is read only
  when there is no first commit.
\<close>

definition resolveProofDate :: "platform \<Rightarrow> int \<Rightarrow> GitHubUser \<Rightarrow> FirstCommit option \<Rightarrow> string" where
  "resolveProofDate P now user fco =
     (case fco of
        None \<Rightarrow> toISOString P now
      | Some fc \<Rightarrow>
          let effectiveDate = getEffectiveCommitDate P fc;
              commitTime = getTime P effectiveDate;
              accountTime = getTime P (createdAt user);
              repoTime = (if truthy_opt (repoCreatedAt fc)
                          then getTime P (the (repoCreatedAt fc))
                          else PosInfinity)
          in if js_less commitTime repoTime
             then (case repoCreatedAt fc of Some r \<Rightarrow> r | None \<Rightarrow> createdAt user)
             else if js_less commitTime accountTime then effectiveDate
             else createdAt user)"

text \<open>
  The text that \<^verbatim>\<open>JSON.stringify\<close> gives for the object literal of
  \<^verbatim>\<open>generateCertificateHash\<close>: the five keys in the order written, no white space.
\<close>

definition certificatePayload :: "string \<Rightarrow> int \<Rightarrow> string \<Rightarrow> EraKey \<Rightarrow> string" where
  "certificatePayload uname gid pd e =
     ''{'' @ json_string ''username'' @ '':'' @ json_string uname
     @ '','' @ json_string ''githubId'' @ '':'' @ show_int gid
     @ '','' @ json_string ''proofDate'' @ '':'' @ json_string pd
     @ '','' @ json_string ''era'' @ '':'' @ json_string (era_string e)
     @ '','' @ json_string ''salt'' @ '':'' @ json_string CERTIFICATE_SALT
     @ ''}''"

definition generateCertificateHash :: "HashFn \<Rightarrow> string \<Rightarrow> int \<Rightarrow> string \<Rightarrow> EraKey \<Rightarrow> string" where
  "generateCertificateHash hashFn uname gid pd e = hashFn (certificatePayload uname gid pd e)"

definition generateCertificateNumber :: "string \<Rightarrow> string" where
  "generateCertificateNumber h =
     (let prefix = toUpperCase (take 4 h);
          numericPart = js_rem (parseInt16 (take 8 (drop 4 h))) 1000000;
          padded = padStart0 6 (show_jsnum numericPart)
      in ''LGC-'' @ prefix @ ''-'' @ padded)"

text \<open>
  \<^verbatim>\<open>createCertificate\<close> reads the clock up to twice: \<open>now\<close> inside \<open>resolveProofDate\<close>
  and \<open>issuedNow\<close> for \<^verbatim>\<open>issuedAt\<close>.
\<close>

definition createCertificate ::
  "platform \<Rightarrow> int \<Rightarrow> int \<Rightarrow> HashFn \<Rightarrow> GitHubUser \<Rightarrow> FirstCommit option \<Rightarrow> Certificate" where
  "createCertificate P now issuedNow hashFn user fco =
     (let pd = resolveProofDate P now user fco;
          e = classifyEra P pd;
          h = generateCertificateHash hashFn (login user) (id' user) pd e;
          number = generateCertificateNumber h
      in \<lparr> version = CERTIFICATE_VERSION,
           type' = ''LASTGEN_CERTIFICATE'',
           identity = \<lparr> username = login user, githubId = id' user, identityName = name user \<rparr>,
           proof' = \<lparr> accountCreated = createdAt user,
                      firstCommit = (case fco of
                          Some fc \<Rightarrow> fc
                        | None \<Rightarrow> \<lparr> date = createdAt user, repo = '''', sha = '''',
                                    message = ''(no public commits found - using account creation date)'',
                                    repoCreatedAt = None, committerDate = None \<rparr>),
                      proofDate = pd \<rparr>,
           era = e,
           verification = \<lparr> hash = ''sha256:'' @ h, salt = CERTIFICATE_SALT \<rparr>,
           certificateNumber = number,
           issuedAt = toISOString P issuedNow \<rparr>)"

section \<open>Verification (core/verify.ts)\<close>

text \<open>
  \<^verbatim>\<open>matchesNoreplyEmail\<close> builds the regular expression
  \<^verbatim>\<open>^(\d+\+)?USER@users\.noreply\.github\.com$\<close>, where \<^verbatim>\<open>escapeRegex\<close> has made
  \<^verbatim>\<open>USER\<close> a literal. A string is in its language when it is the literal tail, or a
  non-empty run of digits, a plus sign and the tail; after a run of digits comes a
  plus sign, so the run is the longest digit prefix.
\<close>

definition matchesNoreplyEmail :: "string \<Rightarrow> string \<Rightarrow> bool" where
  "matchesNoreplyEmail email uname =
     (let lower = toLowerCase email;
          user = toLowerCase uname;
          tail = user @ ''@users.noreply.github.com''
      in lower = tail
         \<or> (takeWhile is_digit lower \<noteq> [] \<and> dropWhile is_digit lower = CHR ''+'' # tail))"

text \<open>
  \<^verbatim>\<open>fetchCommit\<close> is the GitHub data source. It is a parameter: \<open>Inr\<close> is the commit
  detail it resolves to, \<open>Inl\<close> the message that the \<^verbatim>\<open>catch\<close> clause extracts from
  what it throws. The arguments are the repository, the sha and the optional token.
\<close>

type_synonym FetchCommit = "string \<Rightarrow> string \<Rightarrow> string option \<Rightarrow> string + CommitDetail"

record VerifyCertificateResult =
  valid :: bool
  results :: "VerifyResult list"
  resultCertificateNumber :: string
  resultUsername :: string

text \<open>
  The body of the \<^verbatim>\<open>try\<close> block after a successful fetch: the checks pushed for a
  commit detail, in order.
\<close>

definition commitChecks :: "platform \<Rightarrow> Certificate \<Rightarrow> CommitDetail \<Rightarrow> VerifyResult list" where
  "commitChecks P cert commitDetail =
     (let uname = toLowerCase (username (identity cert));
          authorMatch =
            (toLowerCase (case authorLogin commitDetail of Some l \<Rightarrow> l | None \<Rightarrow> '''') = uname);
          committerMatch =
            (toLowerCase (case committerLogin commitDetail of Some l \<Rightarrow> l | None \<Rightarrow> '''') = uname);
          emailMatch =
            (if truthy_opt (authorEmail commitDetail)
             then matchesNoreplyEmail (the (authorEmail commitDetail)) (username (identity cert))
             else False);
          identityMatch = (authorMatch \<or> committerMatch \<or> emailMatch);
          matchMethods =
            (if authorMatch then [''author login''] else [])
            @ (if committerMatch then [''committer login''] else [])
            @ (if emailMatch then [''noreply email''] else []);
          identityCheck =
            \<lparr> check = ''Identity'', passed = identityMatch,
              detail = (if identityMatch then ''Matched via: '' @ join '', '' matchMethods
                        else ''Commit author ('' @ show_nullable (authorLogin commitDetail)
                             @ '') does not match '' @ username (identity cert)) \<rparr>;
          repoOwner = takeWhile (\<lambda>c. c \<noteq> CHR ''/'') (repo (firstCommit (proof' cert)));
          isSelfOwned = (toLowerCase repoOwner = toLowerCase (username (identity cert)));
          ownershipCheck =
            \<lparr> check = ''Repo ownership'', passed = True,
              detail = (if isSelfOwned
                        then ''Commit is in a repo owned by '' @ username (identity cert)
                        else ''Commit is in a third-party repo (''
                             @ repo (firstCommit (proof' cert)) @ '')'') \<rparr>;
          idChecks =
            (case authorId commitDetail of
               None \<Rightarrow> []
             | Some aid \<Rightarrow>
                 let idMatch = (aid = githubId (identity cert)) in
                 [\<lparr> check = ''GitHub ID'', passed = idMatch,
                    detail = (if idMatch
                              then ''GitHub ID '' @ show_int aid @ '' matches certificate''
                              else ''Commit author ID '' @ show_int aid
                                   @ '' does not match certificate ID ''
                                   @ show_int (githubId (identity cert))) \<rparr>]);
          commitTime =
            getTime P (case authorDate commitDetail of Some d \<Rightarrow> d | None \<Rightarrow> '''');
          certTime = getTime P (date (firstCommit (proof' cert)));
          datesClose = js_less (js_abs (js_minus commitTime certTime)) (Fin 60000);
          dateCheck =
            \<lparr> check = ''Commit date'', passed = datesClose,
              detail = (if datesClose
                        then ''Commit date matches certificate (''
                             @ show_nullable (authorDate commitDetail) @ '')''
                        else ''Commit date '' @ show_nullable (authorDate commitDetail)
                             @ '' differs from certificate ''
                             @ date (firstCommit (proof' cert))) \<rparr>;
          consistencyChecks =
            (if truthy_opt (authorDate commitDetail) \<and> truthy_opt (detailCommitterDate commitDetail)
             then
               let authorTime = getTime P (the (authorDate commitDetail));
                   committerTime = getTime P (the (detailCommitterDate commitDetail));
                   driftMs = js_abs (js_minus committerTime authorTime);
                   driftDays = js_round_div driftMs (24 * 60 * 60 * 1000);
                   consistent = js_le driftMs (Fin THIRTY_DAYS_MS)
               in [\<lparr> check = ''Date consistency'', passed = consistent,
                     detail = (if consistent
                               then ''Author/committer date drift: '' @ show_jsnum driftDays
                                    @ ''d (within 30d threshold)''
                               else ''Author/committer date drift: '' @ show_jsnum driftDays
                                    @ ''d exceeds 30d - author date may be forged'') \<rparr>]
             else []);
          rootChecks =
            (if isRootCommit commitDetail
             then [\<lparr> check = ''Root commit'', passed = True,
                      detail = ''Commit has no parents (first commit in repo - higher trust)'' \<rparr>]
             else []);
          gpgChecks =
            (if verified commitDetail
             then
               let reason = verificationReason commitDetail;
                   reasonDetail = (if truthy_opt reason \<and> the reason \<noteq> ''valid''
                                   then '' ('' @ the reason @ '')'' else '''')
               in [\<lparr> check = ''GPG signature'', passed = True,
                     detail = ''Commit is GPG-signed'' @ reasonDetail \<rparr>]
             else [])
      in [identityCheck, ownershipCheck] @ idChecks @ [dateCheck] @ consistencyChecks
         @ rootChecks @ gpgChecks)"

text \<open>
  \<open>now\<close> is the clock reading, used when \<open>resolveProofDate\<close> reads the clock. Beside
  the result, the model returns the list of calls made to \<open>fetchCommit\<close>, so that
  "no fetch is attempted" is a statement about the returned value.
\<close>

definition verifyCertificateData ::
  "platform \<Rightarrow> int \<Rightarrow> FetchCommit \<Rightarrow> Certificate \<Rightarrow> HashFn \<Rightarrow> string option
     \<Rightarrow> VerifyCertificateResult \<times> (string \<times> string \<times> string option) list" where
  "verifyCertificateData P now fetchCommit cert hashFn token =
     (let expectedHash = generateCertificateHash hashFn (username (identity cert))
                           (githubId (identity cert)) (proofDate (proof' cert)) (era cert);
          actualHash = replace_first ''sha256:'' '''' (hash (verification cert));
          hashCheck =
            \<lparr> check = ''Hash integrity'', passed = (expectedHash = actualHash),
              detail = (if expectedHash = actualHash then ''Certificate hash is valid''
                        else ''Certificate hash does not match - data may have been tampered with'') \<rparr>;
          proofTime = getTime P (proofDate (proof' cert));
          cutoff = getTime P CUTOFF_DATE;
          isBeforeCutoff = js_less proofTime cutoff;
          expectedEra = (if isBeforeCutoff then LAST_GEN else AI_NATIVE);
          eraCheck =
            \<lparr> check = ''Era classification'', passed = (era cert = expectedEra),
              detail = (if era cert = expectedEra
                        then ''Era '' @ era_string (era cert) @ '' is correct for proof date ''
                             @ proofDate (proof' cert)
                        else ''Era should be '' @ era_string expectedEra
                             @ '' but certificate claims '' @ era_string (era cert)) \<rparr>;
          reconstructedUser =
            \<lparr> login = username (identity cert), id' = githubId (identity cert),
              name = identityName (identity cert), createdAt = accountCreated (proof' cert) \<rparr>;
          fc = firstCommit (proof' cert);
          expectedProofDate =
            resolveProofDate P now reconstructedUser (if truthy (sha fc) then Some fc else None);
          proofDateMatch =
            js_less (js_abs (js_minus (getTime P expectedProofDate) proofTime)) (Fin 60000);
          proofDateCheck =
            \<lparr> check = ''Proof date'', passed = proofDateMatch,
              detail = (if proofDateMatch
                        then ''Proof date '' @ proofDate (proof' cert)
                             @ '' is consistent with commit and account data''
                        else ''Proof date should be '' @ expectedProofDate
                             @ '' but certificate claims '' @ proofDate (proof' cert)) \<rparr>;
          base = [hashCheck, eraCheck, proofDateCheck];
          (extra, calls) =
            (if truthy (sha fc)
             then ((case fetchCommit (repo fc) (sha fc) token of
                      Inr commitDetail \<Rightarrow> commitChecks P cert commitDetail
                    | Inl msg \<Rightarrow>
                        [\<lparr> check = ''Commit verification'', passed = False,
                           detail = ''Could not fetch commit from GitHub: '' @ msg \<rparr>]),
                   [(repo fc, sha fc, token)])
             else ([], []));
          allResults = base @ extra
      in (\<lparr> valid = list_all passed allResults,
            results = allResults,
            resultCertificateNumber = certificateNumber cert,
            resultUsername = username (identity cert) \<rparr>,
          calls))"

section \<open>The shape check and the first reads on an untyped value\<close>

text \<open>
  \<^verbatim>\<open>isValidCertificate\<close> receives the result of \<^verbatim>\<open>JSON.parse\<close>: any JSON value. A JSON
  object is its list of members (for a repeated key the last member counts). Numbers
  are integers here; what follows looks at no number.
\<close>

datatype json =
    JNull
  | JBool bool
  | JNumber int
  | JString string
  | JArray "json list"
  | JObject "(string \<times> json) list"

datatype js_error = TypeError

text \<open>
  Reading a property: \<open>None\<close> is \<^verbatim>\<open>undefined\<close>. Reading from \<^verbatim>\<open>undefined\<close> or
  \<^verbatim>\<open>null\<close> throws a \<^verbatim>\<open>TypeError\<close>. The names read by the program (\<^verbatim>\<open>identity\<close>,
  \<^verbatim>\<open>username\<close>, \<^verbatim>\<open>hash\<close>, ...) are neither indices nor inherited properties, so on a
  value that is not an object they are \<^verbatim>\<open>undefined\<close>.
\<close>

fun getProp :: "json option \<Rightarrow> string \<Rightarrow> js_error + json option" where
  "getProp None k = Inl TypeError"
| "getProp (Some JNull) k = Inl TypeError"
| "getProp (Some (JObject kvs)) k = Inr (map_of (rev kvs) k)"
| "getProp (Some _) k = Inr None"

fun typeof :: "json option \<Rightarrow> string" where
  "typeof None = ''undefined''"
| "typeof (Some (JBool b)) = ''boolean''"
| "typeof (Some (JNumber n)) = ''number''"
| "typeof (Some (JString s)) = ''string''"
| "typeof (Some _) = ''object''"

text \<open>After the first test \<open>data\<close> is an object or an array, so the reads cannot throw.\<close>

definition isValidCertificate :: "json \<Rightarrow> bool" where
  "isValidCertificate data =
     (if typeof (Some data) \<noteq> ''object'' \<or> data = JNull then False
      else
        let field = (\<lambda>k. case getProp (Some data) k of Inr v \<Rightarrow> v | Inl e \<Rightarrow> None)
        in field ''type'' = Some (JString ''LASTGEN_CERTIFICATE'')
           \<and> typeof (field ''version'') = ''string''
           \<and> typeof (field ''identity'') = ''object''
           \<and> typeof (field ''proof'') = ''object''
           \<and> typeof (field ''verification'') = ''object''
           \<and> typeof (field ''certificateNumber'') = ''string'')"

fun andThen :: "'e + 'a \<Rightarrow> ('a \<Rightarrow> 'e + 'b) \<Rightarrow> 'e + 'b" where
  "andThen (Inl e) f = Inl e"
| "andThen (Inr x) f = f x"

text \<open>
  The first two statements of \<^verbatim>\<open>verifyCertificateData\<close> on the untyped value that the
  shape check let through: the four arguments of \<^verbatim>\<open>generateCertificateHash\<close> are read
  in order, then \<^verbatim>\<open>cert.verification.hash.replace\<close> is called, which exists only on a
  string. The result is the values read, or the exception thrown.
\<close>

definition readHashInputs ::
  "json \<Rightarrow> js_error + (json option \<times> json option \<times> json option \<times> json option \<times> string)" where
  "readHashInputs cert =
     andThen (getProp (Some cert) ''identity'') (\<lambda>i1.
     andThen (getProp i1 ''username'') (\<lambda>uname.
     andThen (getProp (Some cert) ''identity'') (\<lambda>i2.
     andThen (getProp i2 ''githubId'') (\<lambda>gid.
     andThen (getProp (Some cert) ''proof'') (\<lambda>p.
     andThen (getProp p ''proofDate'') (\<lambda>pd.
     andThen (getProp (Some cert) ''era'') (\<lambda>e.
     andThen (getProp (Some cert) ''verification'') (\<lambda>v.
     andThen (getProp v ''hash'') (\<lambda>h.
       case h of
         Some (JString s) \<Rightarrow> Inr (uname, gid, pd, e, replace_first ''sha256:'' '''' s)
       | _ \<Rightarrow> Inl TypeError)))))))))"

section \<open>An instance of the platform for worked examples\<close>

text \<open>
  The examples run the program on concrete date strings. They use the following
  instance of \<open>platform\<close>: the ISO-8601 UTC strings of the three shapes
  \<^verbatim>\<open>YYYY-MM-DD\<close>, \<^verbatim>\<open>YYYY-MM-DDTHH:MM:SSZ\<close> and \<^verbatim>\<open>YYYY-MM-DDTHH:MM:SS.sssZ\<close> (what the
  GitHub API and \<^verbatim>\<open>toISOString\<close> produce), with the proleptic Gregorian calendar.
  Every other string is an invalid date in this instance. The general results never
  refer to it: they hold for every \<open>platform\<close>.
\<close>

definition digit_val :: "char \<Rightarrow> nat" where
  "digit_val c = of_char c - 48"

definition read_nat :: "string \<Rightarrow> nat option" where
  "read_nat s =
     (if s \<noteq> [] \<and> list_all is_digit s
      then Some (foldl (\<lambda>a c. 10 * a + digit_val c) 0 s) else None)"

definition digits_at :: "nat \<Rightarrow> nat \<Rightarrow> string \<Rightarrow> nat option" where
  "digits_at i n s = read_nat (take n (drop i s))"

definition leap_year :: "int \<Rightarrow> bool" where
  "leap_year y = (y mod 4 = 0 \<and> (y mod 100 \<noteq> 0 \<or> y mod 400 = 0))"

definition days_in_month :: "int \<Rightarrow> int \<Rightarrow> int" where
  "days_in_month y m =
     (if m = 2 then (if leap_year y then 29 else 28)
      else if m = 4 \<or> m = 6 \<or> m = 9 \<or> m = 11 then 30 else 31)"

text \<open>Days between 1970-01-01 and the civil date \<open>y-m-d\<close>.\<close>

definition days_from_civil :: "int \<Rightarrow> int \<Rightarrow> int \<Rightarrow> int" where
  "days_from_civil y m d =
     (let y' = (if m \<le> 2 then y - 1 else y);
          c = y' div 400;
          yoe = y' - c * 400;
          mp = (m + 9) mod 12;
          doy = (153 * mp + 2) div 5 + d - 1;
          doe = yoe * 365 + yoe div 4 - yoe div 100 + doy
      in c * 146097 + doe - 719468)"

definition civil_from_days :: "int \<Rightarrow> int \<times> int \<times> int" where
  "civil_from_days z =
     (let z' = z + 719468;
          c = z' div 146097;
          doe = z' - c * 146097;
          yoe = (doe - doe div 1460 + doe div 36524 - doe div 146096) div 365;
          doy = doe - (365 * yoe + yoe div 4 - yoe div 100);
          mp = (5 * doy + 2) div 153;
          d = doy - (153 * mp + 2) div 5 + 1;
          m = (if mp < 10 then mp + 3 else mp - 9);
          y = yoe + c * 400
      in ((if m \<le> 2 then y + 1 else y), m, d))"

definition isoTimeOfDay :: "string \<Rightarrow> int option" where
  "isoTimeOfDay s =
     (let n = length s in
      if n = 10 then Some 0
      else if (n = 20 \<or> n = 24) \<and> s ! 10 = CHR ''T'' \<and> s ! 13 = CHR '':'' \<and> s ! 16 = CHR '':''
              \<and> (if n = 20 then s ! 19 = CHR ''Z'' else s ! 19 = CHR ''.'' \<and> s ! 23 = CHR ''Z'')
      then (case (digits_at 11 2 s, digits_at 14 2 s, digits_at 17 2 s,
                  if n = 20 then Some 0 else digits_at 20 3 s) of
              (Some h, Some mi, Some se, Some ms) \<Rightarrow>
                if h < 24 \<and> mi < 60 \<and> se < 60
                then Some (((int h * 60 + int mi) * 60 + int se) * 1000 + int ms)
                else None
            | _ \<Rightarrow> None)
      else None)"

definition isoDateParse :: "string \<Rightarrow> int option" where
  "isoDateParse s =
     (if 10 \<le> length s \<and> s ! 4 = CHR ''-'' \<and> s ! 7 = CHR ''-''
      then (case (digits_at 0 4 s, digits_at 5 2 s, digits_at 8 2 s, isoTimeOfDay s) of
              (Some y, Some m, Some d, Some t) \<Rightarrow>
                if 1 \<le> m \<and> m \<le> 12 \<and> 1 \<le> d \<and> int d \<le> days_in_month (int y) (int m)
                then Some (days_from_civil (int y) (int m) (int d) * 86400000 + t)
                else None
            | _ \<Rightarrow> None)
      else None)"

text \<open>The \<^verbatim>\<open>toISOString\<close> format, for years 0 to 9999.\<close>

definition isoFormat :: "int \<Rightarrow> string" where
  "isoFormat t =
     (let (y, m, d) = civil_from_days (t div 86400000);
          r = t mod 86400000;
          p = (\<lambda>n i. padStart0 n (show_int i))
      in p 4 y @ ''-'' @ p 2 m @ ''-'' @ p 2 d @ ''T'' @ p 2 (r div 3600000) @ '':''
         @ p 2 (r div 60000 mod 60) @ '':'' @ p 2 (r div 1000 mod 60) @ ''.''
         @ p 3 (r mod 1000) @ ''Z'')"

definition isoPlatform :: platform where
  "isoPlatform = \<lparr> dateParse = isoDateParse, toISOString = isoFormat \<rparr>"

text \<open>Example data: a user, a first commit, a commit detail and two data sources.\<close>

definition alice :: GitHubUser where
  "alice = \<lparr> login = ''alice'', id' = 12345, name = Some ''Alice'',
             createdAt = ''2020-01-01T00:00:00Z'' \<rparr>"

definition aliceCommit :: FirstCommit where
  "aliceCommit = \<lparr> date = ''2019-06-01T00:00:00Z'', repo = ''alice/app'', sha = ''abc123'',
                   message = ''init'', repoCreatedAt = Some ''2019-01-01T00:00:00Z'',
                   committerDate = None \<rparr>"

definition aliceDetail :: CommitDetail where
  "aliceDetail = \<lparr> detailSha = ''abc123'', authorLogin = Some ''Alice'',
                   committerLogin = None,
                   authorEmail = Some ''12345+alice@users.noreply.github.com'',
                   authorDate = Some ''2019-06-01T00:00:00Z'',
                   detailCommitterDate = Some ''2019-06-01T00:00:00Z'',
                   authorId = Some 12345, verificationReason = Some ''valid'',
                   isRootCommit = True, detailMessage = ''init'', verified = True \<rparr>"

definition fetchOk :: FetchCommit where
  "fetchOk r s t = Inr aliceDetail"

definition fetchDown :: FetchCommit where
  "fetchDown r s t = Inl ''GitHub API error: 500 Internal Server Error''"

text \<open>A stand-in digest for the examples (the results hold for every \<open>HashFn\<close>).\<close>

definition demoHash :: HashFn where
  "demoHash s = show_nat (length s) @ ''ab''"

text \<open>
  Two JSON documents that pass the shape check: one with \<^verbatim>\<open>"identity": null\<close>, one
  that is a complete certificate except that its \<^verbatim>\<open>verification\<close> object has no
  \<^verbatim>\<open>hash\<close>.
\<close>

definition nullIdentityDocument :: json where
  "nullIdentityDocument =
     JObject [(''version'', JString ''1.0''), (''type'', JString ''LASTGEN_CERTIFICATE''),
              (''identity'', JNull), (''proof'', JObject []), (''verification'', JObject []),
              (''certificateNumber'', JString ''LGC-0000-000000'')]"

definition noHashDocument :: json where
  "noHashDocument =
     JObject [(''version'', JString ''1.0''), (''type'', JString ''LASTGEN_CERTIFICATE''),
              (''identity'', JObject [(''username'', JString ''alice''),
                                      (''githubId'', JNumber 12345), (''name'', JNull)]),
              (''proof'', JObject [(''accountCreated'', JString ''2020-01-01T00:00:00Z''),
                                   (''firstCommit'', JObject
                                      [(''date'', JString ''2020-01-01T00:00:00Z''),
                                       (''repo'', JString ''''), (''sha'', JString ''''),
                                       (''message'', JString ''none'')]),
                                   (''proofDate'', JString ''2020-01-01T00:00:00Z'')]),
              (''era'', JString ''LAST_GEN''),
              (''verification'', JObject [(''salt'', JString ''lastgen_v1'')]),
              (''certificateNumber'', JString ''LGC-0000-000000''),
              (''issuedAt'', JString ''2026-02-19T00:00:00.000Z'')]"

section \<open>Basic facts\<close>

lemma getTime_Some: "dateParse P s = Some t \<Longrightarrow> getTime P s = Fin t"
  by (simp add: getTime_def)

lemma getTime_None: "dateParse P s = None \<Longrightarrow> getTime P s = NaN"
  by (simp add: getTime_def)

lemma parsed_truthy: "dateParse P [] = None \<Longrightarrow> dateParse P s = Some t \<Longrightarrow> truthy s"
  by (auto simp: truthy_def)

lemma iso_empty: "dateParse isoPlatform [] = None"
  by (simp add: isoPlatform_def isoDateParse_def)

lemma iso_2019_01_01: "dateParse isoPlatform ''2019-01-01T00:00:00Z'' = Some 1546300800000"
  unfolding isoPlatform_def by code_simp

lemma iso_2019_06_01: "dateParse isoPlatform ''2019-06-01T00:00:00Z'' = Some 1559347200000"
  unfolding isoPlatform_def by code_simp

lemma iso_2020_01_01: "dateParse isoPlatform ''2020-01-01T00:00:00Z'' = Some 1577836800000"
  unfolding isoPlatform_def by code_simp

lemma iso_2015_01_01: "dateParse isoPlatform ''2015-01-01T00:00:00Z'' = Some 1420070400000"
  unfolding isoPlatform_def by code_simp

lemma iso_2024_06_01: "dateParse isoPlatform ''2024-06-01T00:00:00Z'' = Some 1717200000000"
  unfolding isoPlatform_def by code_simp

lemma iso_cutoff: "dateParse isoPlatform CUTOFF_DATE = Some 1740096000000"
  unfolding isoPlatform_def CUTOFF_DATE_def by code_simp

lemma iso_before_cutoff:
  "dateParse isoPlatform ''2025-02-20T23:59:59.999Z'' = Some 1740095999999"
  unfolding isoPlatform_def by code_simp

lemma aliceCommit_effective:
  "getEffectiveCommitDate P aliceCommit = ''2019-06-01T00:00:00Z''"
  by (simp add: getEffectiveCommitDate_def aliceCommit_def)

section \<open>The proof resolver\<close>

text \<open>
  C1. For every user and every first commit whose \<open>repoCreatedAt\<close> is present, with
  the repository date, the account date and the effective commit date parseable (the
  platform rejecting the empty string as a date): \<open>resolveProofDate\<close> returns
  \<open>repoCreatedAt\<close> when the effective commit date is strictly earlier than it, and
  otherwise the earlier of the effective commit date and the account creation date
  (the account creation date on a tie).
\<close>

theorem resolveProofDate_repo_known:
  assumes empty: "dateParse P [] = None"
    and repo: "repoCreatedAt fc = Some r" "dateParse P r = Some rt"
    and acct: "dateParse P (createdAt user) = Some at"
    and eff: "dateParse P (getEffectiveCommitDate P fc) = Some ct"
  shows "resolveProofDate P now user (Some fc) =
           (if ct < rt then r
            else if ct < at then getEffectiveCommitDate P fc
            else createdAt user)
         \<and> (\<not> ct < rt \<longrightarrow>
              dateParse P (resolveProofDate P now user (Some fc)) = Some (min ct at))"
proof -
  have "truthy_opt (repoCreatedAt fc)"
    using parsed_truthy [OF empty repo(2)] repo(1) by simp
  then have "resolveProofDate P now user (Some fc) =
           (if ct < rt then r
            else if ct < at then getEffectiveCommitDate P fc
            else createdAt user)"
    using repo acct eff
    by (simp add: resolveProofDate_def Let_def getTime_Some)
  then show ?thesis
    using acct eff by (auto simp: min_def)
qed

theorem resolveProofDate_repo_known_witness:
  "resolveProofDate isoPlatform 0 alice (Some aliceCommit) = ''2019-06-01T00:00:00Z''
   \<and> dateParse isoPlatform (resolveProofDate isoPlatform 0 alice (Some aliceCommit))
       = Some 1559347200000
   \<and> resolveProofDate isoPlatform 0 alice
        (Some (aliceCommit\<lparr>repoCreatedAt := Some ''2020-01-01T00:00:00Z''\<rparr>))
      = ''2020-01-01T00:00:00Z''"
proof -
  let ?late = "aliceCommit\<lparr>repoCreatedAt := Some ''2020-01-01T00:00:00Z''\<rparr>"
  have a: "dateParse isoPlatform (createdAt alice) = Some 1577836800000"
    using iso_2020_01_01 by (simp add: alice_def)
  have e: "dateParse isoPlatform (getEffectiveCommitDate isoPlatform aliceCommit)
             = Some 1559347200000"
    using iso_2019_06_01 by (simp add: aliceCommit_effective)
  have r: "repoCreatedAt aliceCommit = Some ''2019-01-01T00:00:00Z''"
    by (simp add: aliceCommit_def)
  have e': "dateParse isoPlatform (getEffectiveCommitDate isoPlatform ?late)
             = Some 1559347200000"
    using iso_2019_06_01 by (simp add: getEffectiveCommitDate_def aliceCommit_def)
  have r': "repoCreatedAt ?late = Some ''2020-01-01T00:00:00Z''"
    by simp
  show ?thesis
    using resolveProofDate_repo_known [OF iso_empty r iso_2019_01_01 a e, of 0]
      resolveProofDate_repo_known [OF iso_empty r' iso_2020_01_01 a e', of 0]
      aliceCommit_effective [of isoPlatform] iso_2019_06_01
    by simp
qed

text \<open>
  C2, as stated, fails: with no \<open>repoCreatedAt\<close>, a commit of 2019-06-01 and an account
  of 2020-01-01, the result is the account date, not the earlier commit date.
\<close>

theorem resolveProofDate_repo_absent_counterexample:
  "repoCreatedAt (aliceCommit\<lparr>repoCreatedAt := None\<rparr>) = None
   \<and> getEffectiveCommitDate isoPlatform (aliceCommit\<lparr>repoCreatedAt := None\<rparr>)
       = ''2019-06-01T00:00:00Z''
   \<and> dateParse isoPlatform ''2019-06-01T00:00:00Z'' = Some 1559347200000
   \<and> dateParse isoPlatform (createdAt alice) = Some 1577836800000
   \<and> resolveProofDate isoPlatform 0 alice (Some (aliceCommit\<lparr>repoCreatedAt := None\<rparr>))
       = ''2020-01-01T00:00:00Z''
   \<and> resolveProofDate isoPlatform 0 alice (Some (aliceCommit\<lparr>repoCreatedAt := None\<rparr>))
       \<noteq> getEffectiveCommitDate isoPlatform (aliceCommit\<lparr>repoCreatedAt := None\<rparr>)"
proof -
  have e: "getEffectiveCommitDate isoPlatform (aliceCommit\<lparr>repoCreatedAt := None\<rparr>)
             = ''2019-06-01T00:00:00Z''"
    by (simp add: getEffectiveCommitDate_def aliceCommit_def)
  have a: "dateParse isoPlatform (createdAt alice) = Some 1577836800000"
    using iso_2020_01_01 by (simp add: alice_def)
  have "resolveProofDate isoPlatform 0 alice (Some (aliceCommit\<lparr>repoCreatedAt := None\<rparr>))
          = ''2020-01-01T00:00:00Z''"
    using iso_2019_06_01
    by (simp add: resolveProofDate_def e getTime_Some alice_def)
  then show ?thesis
    using e a iso_2019_06_01 by simp
qed

text \<open>
  C2, amended. For every user and every first commit whose \<open>repoCreatedAt\<close> is absent
  and whose effective commit date is parseable, \<open>resolveProofDate\<close> returns the account
  creation date: the missing repository date is taken as \<open>+Infinity\<close>, every commit is
  earlier than that, and the fallback of that branch is the account creation date.
\<close>

theorem resolveProofDate_repo_absent:
  assumes "repoCreatedAt fc = None"
    and "dateParse P (getEffectiveCommitDate P fc) = Some ct"
  shows "resolveProofDate P now user (Some fc) = createdAt user"
  using assms by (simp add: resolveProofDate_def getTime_Some)

theorem resolveProofDate_repo_absent_witness:
  "resolveProofDate isoPlatform 0 (alice\<lparr>createdAt := ''2019-01-01T00:00:00Z''\<rparr>)
     (Some (aliceCommit\<lparr>repoCreatedAt := None\<rparr>)) = ''2019-01-01T00:00:00Z''"
proof -
  let ?fc = "aliceCommit\<lparr>repoCreatedAt := None\<rparr>"
  have e: "dateParse isoPlatform (getEffectiveCommitDate isoPlatform ?fc) = Some 1559347200000"
    using iso_2019_06_01 by (simp add: getEffectiveCommitDate_def aliceCommit_def)
  have r: "repoCreatedAt ?fc = None" by simp
  show ?thesis
    using resolveProofDate_repo_absent
            [OF r e, of 0 "alice\<lparr>createdAt := ''2019-01-01T00:00:00Z''\<rparr>"]
    by simp
qed

text \<open>
  C3. The effective commit date is the committer date exactly when a committer date
  exists, both dates parse and the committer time minus the author time exceeds 30
  days (2592000000 ms); in every other case it is the author date.
\<close>

theorem getEffectiveCommitDate_spec:
  assumes "dateParse P [] = None"
  shows "getEffectiveCommitDate P fc =
           (case committerDate fc of
              None \<Rightarrow> date fc
            | Some c \<Rightarrow>
                (case (dateParse P c, dateParse P (date fc)) of
                   (Some ctime, Some atime) \<Rightarrow>
                     if ctime - atime > 2592000000 then c else date fc
                 | _ \<Rightarrow> date fc))"
proof (cases "committerDate fc")
  case None
  then show ?thesis by (simp add: getEffectiveCommitDate_def)
next
  case (Some c)
  show ?thesis
  proof (cases "c = []")
    case True
    with Some assms show ?thesis
      by (simp add: getEffectiveCommitDate_def truthy_def)
  next
    case False
    with Some show ?thesis
      by (simp add: getEffectiveCommitDate_def truthy_def getTime_def THIRTY_DAYS_MS_def
               split: option.splits)
  qed
qed

theorem getEffectiveCommitDate_spec_witness:
  "getEffectiveCommitDate isoPlatform
     (aliceCommit\<lparr>date := ''2015-01-01T00:00:00Z'',
                  committerDate := Some ''2024-06-01T00:00:00Z''\<rparr>) = ''2024-06-01T00:00:00Z''
   \<and> getEffectiveCommitDate isoPlatform
     (aliceCommit\<lparr>committerDate := Some ''2019-06-01T00:00:00Z''\<rparr>) = ''2019-06-01T00:00:00Z''"
  using getEffectiveCommitDate_spec [OF iso_empty,
          of "aliceCommit\<lparr>date := ''2015-01-01T00:00:00Z'',
                           committerDate := Some ''2024-06-01T00:00:00Z''\<rparr>"]
    getEffectiveCommitDate_spec [OF iso_empty,
          of "aliceCommit\<lparr>committerDate := Some ''2019-06-01T00:00:00Z''\<rparr>"]
    iso_2015_01_01 iso_2024_06_01 iso_2019_06_01
  by (simp add: aliceCommit_def)

section \<open>The era classifier\<close>

text \<open>
  C4. With the cutoff string parsed as 2025-02-21T00:00:00Z (1740096000000 ms), for
  every parseable proof date \<open>classifyEra\<close> returns \<open>LAST_GEN\<close> if and only if the proof
  date is strictly before the cutoff, and \<open>AI_NATIVE\<close> otherwise; one millisecond before
  the cutoff is \<open>LAST_GEN\<close>, the cutoff itself is \<open>AI_NATIVE\<close>.
\<close>

theorem classifyEra_cutoff:
  assumes "dateParse P CUTOFF_DATE = Some 1740096000000"
    and "dateParse P pd = Some t"
  shows "(classifyEra P pd = LAST_GEN \<longleftrightarrow> t < 1740096000000)
         \<and> (classifyEra P pd = AI_NATIVE \<longleftrightarrow> \<not> t < 1740096000000)
         \<and> (t = 1740096000000 - 1 \<longrightarrow> classifyEra P pd = LAST_GEN)
         \<and> (t = 1740096000000 \<longrightarrow> classifyEra P pd = AI_NATIVE)
         \<and> classifyEra P CUTOFF_DATE = AI_NATIVE"
  using assms by (simp add: classifyEra_def getTime_Some)

theorem classifyEra_cutoff_witness:
  "classifyEra isoPlatform ''2025-02-20T23:59:59.999Z'' = LAST_GEN
   \<and> classifyEra isoPlatform ''2025-02-21T00:00:00Z'' = AI_NATIVE
   \<and> classifyEra isoPlatform ''2019-06-01T00:00:00Z'' = LAST_GEN"
  using classifyEra_cutoff [OF iso_cutoff iso_before_cutoff]
    classifyEra_cutoff [OF iso_cutoff iso_cutoff]
    classifyEra_cutoff [OF iso_cutoff iso_2019_06_01]
  by (simp add: CUTOFF_DATE_def)

section \<open>Hashing and the certificate builder\<close>

lemma replace_first_prefix: "replace_first ''sha256:'' [] (''sha256:'' @ h) = h"
  by simp

lemma verify_results:
  "results (fst (verifyCertificateData P now fetch cert hashFn token)) =
     take 3 (results (fst (verifyCertificateData P now fetch cert hashFn token)))
     @ (if truthy (sha (firstCommit (proof' cert)))
        then (case fetch (repo (firstCommit (proof' cert))) (sha (firstCommit (proof' cert))) token of
                Inr commitDetail \<Rightarrow> commitChecks P cert commitDetail
              | Inl msg \<Rightarrow>
                  [\<lparr> check = ''Commit verification'', passed = False,
                     detail = ''Could not fetch commit from GitHub: '' @ msg \<rparr>])
        else [])"
  by (simp add: verifyCertificateData_def Let_def split_def)

lemma verify_base_names:
  "map check (take 3 (results (fst (verifyCertificateData P now fetch cert hashFn token))))
     = [''Hash integrity'', ''Era classification'', ''Proof date'']"
  by (simp add: verifyCertificateData_def Let_def split_def)

lemma verify_base_independent:
  "take 3 (results (fst (verifyCertificateData P now fetch cert hashFn token)))
     = take 3 (results (fst (verifyCertificateData P now fetchB cert hashFn tokenB)))"
  by (simp add: verifyCertificateData_def Let_def split_def)

lemma verify_calls:
  "snd (verifyCertificateData P now fetch cert hashFn token) =
     (if truthy (sha (firstCommit (proof' cert)))
      then [(repo (firstCommit (proof' cert)), sha (firstCommit (proof' cert)), token)]
      else [])"
  by (simp add: verifyCertificateData_def Let_def split_def)

lemma verify_hash_check:
  "hd (results (fst (verifyCertificateData P now fetch cert hashFn token))) =
     (let expected = generateCertificateHash hashFn (username (identity cert))
                       (githubId (identity cert)) (proofDate (proof' cert)) (era cert);
          actual = replace_first ''sha256:'' [] (hash (verification cert))
      in \<lparr> check = ''Hash integrity'', passed = (expected = actual),
           detail = (if expected = actual then ''Certificate hash is valid''
                     else ''Certificate hash does not match - data may have been tampered with'') \<rparr>)"
  by (simp add: verifyCertificateData_def Let_def split_def)

lemma verify_proof_date_check:
  "results (fst (verifyCertificateData P now fetch cert hashFn token)) ! 2 =
     (let fc = firstCommit (proof' cert);
          expected = resolveProofDate P now
            \<lparr> login = username (identity cert), id' = githubId (identity cert),
              name = identityName (identity cert), createdAt = accountCreated (proof' cert) \<rparr>
            (if truthy (sha fc) then Some fc else None);
          ok = js_less (js_abs (js_minus (getTime P expected)
                 (getTime P (proofDate (proof' cert))))) (Fin 60000)
      in \<lparr> check = ''Proof date'', passed = ok,
           detail = (if ok
                     then ''Proof date '' @ proofDate (proof' cert)
                          @ '' is consistent with commit and account data''
                     else ''Proof date should be '' @ expected
                          @ '' but certificate claims '' @ proofDate (proof' cert)) \<rparr>)"
  by (simp add: verifyCertificateData_def Let_def split_def)

lemma createCertificate_fields:
  "username (identity (createCertificate P now issued hashFn user fco)) = login user"
  "githubId (identity (createCertificate P now issued hashFn user fco)) = id' user"
  "proofDate (proof' (createCertificate P now issued hashFn user fco))
     = resolveProofDate P now user fco"
  "era (createCertificate P now issued hashFn user fco)
     = classifyEra P (resolveProofDate P now user fco)"
  "hash (verification (createCertificate P now issued hashFn user fco))
     = ''sha256:'' @ generateCertificateHash hashFn (login user) (id' user)
         (resolveProofDate P now user fco) (classifyEra P (resolveProofDate P now user fco))"
  by (simp_all add: createCertificate_def Let_def)

lemma createCertificate_no_commit_sha:
  "sha (firstCommit (proof' (createCertificate P now issued hashFn user None))) = []"
  by (simp add: createCertificate_def Let_def)

text \<open>
  C5. For every certificate produced by \<open>createCertificate\<close> (any platform, clock
  readings, hash function, user and first commit), the stored hash is \<^verbatim>\<open>sha256:\<close>
  followed by the digest that \<open>generateCertificateHash\<close> gives on the certificate's own
  username, GitHub id, proof date and era; and the verifier's first check, "Hash
  integrity", passes on it, whatever the verification clock and data source are.
\<close>

theorem createCertificate_hash_roundtrip:
  "(let c = createCertificate P now issued hashFn user fco in
      hash (verification c) =
        ''sha256:'' @ generateCertificateHash hashFn (username (identity c))
                        (githubId (identity c)) (proofDate (proof' c)) (era c)
      \<and> hd (results (fst (verifyCertificateData P nowB fetch c hashFn token)))
          = \<lparr> check = ''Hash integrity'', passed = True,
              detail = ''Certificate hash is valid'' \<rparr>)"
  unfolding Let_def verify_hash_check createCertificate_fields replace_first_prefix
  by simp

theorem createCertificate_hash_roundtrip_witness:
  "passed (hd (results (fst (verifyCertificateData isoPlatform 1700000000000 fetchOk
      (createCertificate isoPlatform 0 1600000000000 demoHash alice (Some aliceCommit))
      demoHash None))))"
  using createCertificate_hash_roundtrip
          [where P = isoPlatform and now = 0 and issued = 1600000000000 and hashFn = demoHash
             and user = alice and fco = "Some aliceCommit" and nowB = 1700000000000
             and fetch = fetchOk and token = None]
  by (simp add: Let_def)

text \<open>
  C6. The hash covers the username, the GitHub id, the proof date and the era (and the
  constant salt) only. Two certificates that agree on these four fields get the same
  digest from \<open>generateCertificateHash\<close>; with equal stored hashes their "Hash integrity"
  checks coincide; and two runs of \<open>createCertificate\<close> that agree on login, id and
  resolved proof date store the same hash and certificate number, whatever the display
  name, the commit (message, repo, sha) and the issuance time are.
\<close>

theorem certificate_hash_covers_four_fields:
  "(username (identity ca) = username (identity cb)
      \<and> githubId (identity ca) = githubId (identity cb)
      \<and> proofDate (proof' ca) = proofDate (proof' cb)
      \<and> era ca = era cb
    \<longrightarrow> generateCertificateHash hashFn (username (identity ca)) (githubId (identity ca))
            (proofDate (proof' ca)) (era ca)
        = generateCertificateHash hashFn (username (identity cb)) (githubId (identity cb))
            (proofDate (proof' cb)) (era cb)
      \<and> (hash (verification ca) = hash (verification cb) \<longrightarrow>
           hd (results (fst (verifyCertificateData P va fetchA ca hashFn tokenA)))
           = hd (results (fst (verifyCertificateData P vb fetchB cb hashFn tokenB)))))
   \<and> (login ua = login ub \<and> id' ua = id' ub
      \<and> resolveProofDate P na ua fa = resolveProofDate P nb ub fb
    \<longrightarrow> verification (createCertificate P na ia hashFn ua fa)
          = verification (createCertificate P nb ib hashFn ub fb)
      \<and> certificateNumber (createCertificate P na ia hashFn ua fa)
          = certificateNumber (createCertificate P nb ib hashFn ub fb))"
proof -
  have "verification (createCertificate P na ia hashFn ua fa)
          = verification (createCertificate P nb ib hashFn ub fb)
      \<and> certificateNumber (createCertificate P na ia hashFn ua fa)
          = certificateNumber (createCertificate P nb ib hashFn ub fb)"
    if "login ua = login ub" "id' ua = id' ub"
      "resolveProofDate P na ua fa = resolveProofDate P nb ub fb"
    using that by (simp add: createCertificate_def Let_def)
  then show ?thesis
    unfolding verify_hash_check by simp
qed

theorem certificate_hash_covers_four_fields_witness:
  "verification (createCertificate isoPlatform 0 1700000000000 demoHash alice (Some aliceCommit))
     = verification (createCertificate isoPlatform 5 1800000000000 demoHash
         (alice\<lparr>name := None\<rparr>)
         (Some (aliceCommit\<lparr>message := ''first'', repo := ''alice/other'', sha := ''ffff''\<rparr>)))
   \<and> hd (results (fst (verifyCertificateData isoPlatform 1700000000000 fetchOk
         (createCertificate isoPlatform 0 1700000000000 demoHash alice (Some aliceCommit))
         demoHash None)))
     = hd (results (fst (verifyCertificateData isoPlatform 1800000000000 fetchDown
         (createCertificate isoPlatform 5 1800000000000 demoHash (alice\<lparr>name := None\<rparr>)
           (Some (aliceCommit\<lparr>message := ''first'', repo := ''alice/other'',
                              sha := ''ffff''\<rparr>)))
         demoHash (Some ''token''))))"
proof -
  let ?fc = "aliceCommit\<lparr>message := ''first'', repo := ''alice/other'', sha := ''ffff''\<rparr>"
  let ?ca = "createCertificate isoPlatform 0 1700000000000 demoHash alice (Some aliceCommit)"
  let ?cb = "createCertificate isoPlatform 5 1800000000000 demoHash (alice\<lparr>name := None\<rparr>)
               (Some ?fc)"
  have pd: "resolveProofDate isoPlatform 0 alice (Some aliceCommit)
          = resolveProofDate isoPlatform 5 (alice\<lparr>name := None\<rparr>) (Some ?fc)"
    by (simp add: resolveProofDate_def getEffectiveCommitDate_def aliceCommit_def Let_def)
  have same: "username (identity ?ca) = username (identity ?cb)"
    "githubId (identity ?ca) = githubId (identity ?cb)"
    "proofDate (proof' ?ca) = proofDate (proof' ?cb)"
    "era ?ca = era ?cb"
    "hash (verification ?ca) = hash (verification ?cb)"
    using pd by (simp_all add: createCertificate_fields)
  show ?thesis
    using certificate_hash_covers_four_fields
            [where ca = ?ca and cb = ?cb
               and ua = alice and ub = "alice\<lparr>name := None\<rparr>" and P = isoPlatform
               and na = 0 and fa = "Some aliceCommit" and nb = 5 and fb = "Some ?fc"
               and ia = 1700000000000 and ib = 1800000000000 and hashFn = demoHash
               and va = 1700000000000 and vb = 1800000000000
               and fetchA = fetchOk and fetchB = fetchDown
               and tokenA = None and tokenB = "Some ''token''"]
      pd same
    by simp
qed

section \<open>The verifier\<close>

text \<open>
  C7. For every certificate whose \<open>proof.firstCommit.sha\<close> is empty, the verifier
  makes no call to the data source, and its result list is exactly three checks, named
  "Hash integrity", "Era classification" and "Proof date", in that order.
\<close>

theorem verify_empty_sha_three_checks:
  assumes "sha (firstCommit (proof' cert)) = []"
  shows "snd (verifyCertificateData P now fetch cert hashFn token) = []
         \<and> map check (results (fst (verifyCertificateData P now fetch cert hashFn token)))
             = [''Hash integrity'', ''Era classification'', ''Proof date'']"
proof -
  have nt: "\<not> truthy (sha (firstCommit (proof' cert)))"
    using assms by (simp add: truthy_def)
  have "results (fst (verifyCertificateData P now fetch cert hashFn token))
          = take 3 (results (fst (verifyCertificateData P now fetch cert hashFn token)))"
    using nt by (subst verify_results) simp
  then show ?thesis
    using nt verify_base_names [of P now fetch cert hashFn token]
    by (simp add: verify_calls)
qed

theorem verify_empty_sha_three_checks_witness:
  "snd (verifyCertificateData isoPlatform 1700000000000 fetchOk
          (createCertificate isoPlatform 1700000000000 1700000000000 demoHash alice None)
          demoHash None) = []
   \<and> map check (results (fst (verifyCertificateData isoPlatform 1700000000000 fetchOk
          (createCertificate isoPlatform 1700000000000 1700000000000 demoHash alice None)
          demoHash None)))
       = [''Hash integrity'', ''Era classification'', ''Proof date'']"
  using verify_empty_sha_three_checks [OF createCertificate_no_commit_sha]
  by simp

text \<open>
  C8. For every certificate with a non-empty sha, when the commit fetch fails with a
  message, the verifier returns (it is a total function: the failure is a value, caught)
  the three base checks, the same as under any other data source, followed by exactly
  one check named "Commit verification" with \<open>passed = False\<close> and the message in its
  detail; no sub-check of a fetched commit is present, the fetch was attempted once,
  and the certificate is not valid.
\<close>

theorem verify_fetch_failure:
  assumes "sha (firstCommit (proof' cert)) \<noteq> []"
    and "fetch (repo (firstCommit (proof' cert))) (sha (firstCommit (proof' cert))) token
           = Inl msg"
  shows "results (fst (verifyCertificateData P now fetch cert hashFn token))
           = take 3 (results (fst (verifyCertificateData P now fetchB cert hashFn tokenB)))
             @ [\<lparr> check = ''Commit verification'', passed = False,
                  detail = ''Could not fetch commit from GitHub: '' @ msg \<rparr>]
         \<and> map check (results (fst (verifyCertificateData P now fetch cert hashFn token)))
             = [''Hash integrity'', ''Era classification'', ''Proof date'',
                ''Commit verification'']
         \<and> \<not> valid (fst (verifyCertificateData P now fetch cert hashFn token))
         \<and> snd (verifyCertificateData P now fetch cert hashFn token)
             = [(repo (firstCommit (proof' cert)), sha (firstCommit (proof' cert)), token)]"
proof -
  let ?V = "verifyCertificateData P now fetch cert hashFn token"
  let ?fail = "\<lparr> check = ''Commit verification'', passed = False,
                 detail = ''Could not fetch commit from GitHub: '' @ msg \<rparr>"
  have t: "truthy (sha (firstCommit (proof' cert)))"
    using assms(1) by (simp add: truthy_def)
  have r: "results (fst ?V) = take 3 (results (fst ?V)) @ [?fail]"
    using t assms(2) by (subst verify_results) simp
  have 1: "results (fst ?V)
             = take 3 (results (fst (verifyCertificateData P now fetchB cert hashFn tokenB)))
               @ [?fail]"
    using r verify_base_independent [of P now fetch cert hashFn token fetchB tokenB] by simp
  have 2: "map check (results (fst ?V))
             = [''Hash integrity'', ''Era classification'', ''Proof date'',
                ''Commit verification'']"
    using verify_base_names [of P now fetch cert hashFn token]
    by (subst r) simp
  have v: "valid (fst ?V) = list_all passed (results (fst ?V))"
    by (simp add: verifyCertificateData_def Let_def split_def)
  have 3: "\<not> valid (fst ?V)"
    unfolding v by (subst r) simp
  show ?thesis
    using 1 2 3 t by (simp add: verify_calls)
qed

theorem verify_fetch_failure_witness:
  "map check (results (fst (verifyCertificateData isoPlatform 1700000000000 fetchDown
      (createCertificate isoPlatform 0 1700000000000 demoHash alice (Some aliceCommit))
      demoHash None)))
     = [''Hash integrity'', ''Era classification'', ''Proof date'', ''Commit verification'']
   \<and> last (results (fst (verifyCertificateData isoPlatform 1700000000000 fetchDown
      (createCertificate isoPlatform 0 1700000000000 demoHash alice (Some aliceCommit))
      demoHash None)))
     = \<lparr> check = ''Commit verification'', passed = False,
         detail = ''Could not fetch commit from GitHub: GitHub API error: 500 Internal Server Error'' \<rparr>"
proof -
  let ?c = "createCertificate isoPlatform 0 1700000000000 demoHash alice (Some aliceCommit)"
  have s: "sha (firstCommit (proof' ?c)) \<noteq> []"
    by (simp add: createCertificate_def Let_def aliceCommit_def)
  have f: "fetchDown (repo (firstCommit (proof' ?c))) (sha (firstCommit (proof' ?c))) None
             = Inl ''GitHub API error: 500 Internal Server Error''"
    by (simp add: fetchDown_def)
  note w = verify_fetch_failure [where fetch = fetchDown and cert = ?c and token = None
            and P = isoPlatform and now = 1700000000000 and hashFn = demoHash
            and fetchB = fetchOk and tokenB = None, OF s f]
  have r: "results (fst (verifyCertificateData isoPlatform 1700000000000 fetchDown ?c
             demoHash None))
           = take 3 (results (fst (verifyCertificateData isoPlatform 1700000000000 fetchOk ?c
               demoHash None)))
             @ [\<lparr> check = ''Commit verification'', passed = False,
                  detail = ''Could not fetch commit from GitHub: ''
                           @ ''GitHub API error: 500 Internal Server Error'' \<rparr>]"
    using w by (rule conjunct1)
  have l: "last (results (fst (verifyCertificateData isoPlatform 1700000000000 fetchDown ?c
             demoHash None)))
           = \<lparr> check = ''Commit verification'', passed = False,
               detail = ''Could not fetch commit from GitHub: GitHub API error: 500 Internal Server Error'' \<rparr>"
    by (subst r) simp
  show ?thesis
    using w l by blast
qed

text \<open>
  C10. For every certificate whose \<open>proof.firstCommit.sha\<close> is empty, on a platform
  where the current time survives \<^verbatim>\<open>toISOString\<close> and parsing, the third check is
  "Proof date", the date it expects is the current time (as its failure detail says),
  and it passes if and only if the stored proof date parses and the clock of the
  verification is less than 60000 ms away from it. Hence a certificate issued
  with no commit at \<open>t0\<close> passes that check at \<open>t1\<close> exactly when \<open>\<bar>t1 - t0\<bar> < 60000\<close>:
  it stops verifying one minute after issuance.
\<close>

theorem proof_date_check_without_commit:
  assumes "dateParse P (toISOString P now) = Some now"
  shows "(sha (firstCommit (proof' cert)) = [] \<longrightarrow>
            check (results (fst (verifyCertificateData P now fetch cert hashFn token)) ! 2)
              = ''Proof date''
            \<and> (passed (results (fst (verifyCertificateData P now fetch cert hashFn token)) ! 2)
                 \<longleftrightarrow> (case dateParse P (proofDate (proof' cert)) of
                        Some p \<Rightarrow> \<bar>now - p\<bar> < 60000
                      | None \<Rightarrow> False))
            \<and> (\<not> passed (results (fst (verifyCertificateData P now fetch cert hashFn token)) ! 2)
                 \<longrightarrow> detail (results (fst (verifyCertificateData P now fetch cert hashFn token)) ! 2)
                       = ''Proof date should be '' @ toISOString P now
                         @ '' but certificate claims '' @ proofDate (proof' cert)))
         \<and> (dateParse P (toISOString P issuedAtTime) = Some issuedAtTime \<longrightarrow>
              (passed (results (fst (verifyCertificateData P now fetch
                  (createCertificate P issuedAtTime issuedNow hashFn user None) hashFn token)) ! 2)
                 \<longleftrightarrow> \<bar>now - issuedAtTime\<bar> < 60000)
              \<and> \<not> (60000 \<le> now - issuedAtTime
                     \<and> valid (fst (verifyCertificateData P now fetch
                  (createCertificate P issuedAtTime issuedNow hashFn user None) hashFn token))))"
proof -
  have general: "check (results (fst (verifyCertificateData P now fetch c hashFn token)) ! 2)
              = ''Proof date''
            \<and> (passed (results (fst (verifyCertificateData P now fetch c hashFn token)) ! 2)
                 \<longleftrightarrow> (case dateParse P (proofDate (proof' c)) of
                        Some p \<Rightarrow> \<bar>now - p\<bar> < 60000
                      | None \<Rightarrow> False))
            \<and> (\<not> passed (results (fst (verifyCertificateData P now fetch c hashFn token)) ! 2)
                 \<longrightarrow> detail (results (fst (verifyCertificateData P now fetch c hashFn token)) ! 2)
                       = ''Proof date should be '' @ toISOString P now
                         @ '' but certificate claims '' @ proofDate (proof' c))"
    if "sha (firstCommit (proof' c)) = []" for c
    using that assms
    by (simp add: verify_proof_date_check Let_def truthy_def resolveProofDate_def getTime_def
             split: option.splits)
  let ?c = "createCertificate P issuedAtTime issuedNow hashFn user None"
  let ?V = "verifyCertificateData P now fetch ?c hashFn token"
  have pd: "proofDate (proof' ?c) = toISOString P issuedAtTime"
    by (simp add: createCertificate_fields resolveProofDate_def)
  have issued: "passed (results (fst ?V) ! 2) \<longleftrightarrow> \<bar>now - issuedAtTime\<bar> < 60000"
    if "dateParse P (toISOString P issuedAtTime) = Some issuedAtTime"
    using general [OF createCertificate_no_commit_sha
                     [where P = P and now = issuedAtTime and issued = issuedNow
                        and hashFn = hashFn and user = user]]
      that pd by simp
  have v: "valid (fst ?V) = list_all passed (results (fst ?V))"
    by (simp add: verifyCertificateData_def Let_def split_def)
  have len: "2 < length (results (fst ?V))"
    by (simp add: verifyCertificateData_def Let_def split_def)
  have stale: "\<not> (60000 \<le> now - issuedAtTime \<and> valid (fst ?V))"
    if "dateParse P (toISOString P issuedAtTime) = Some issuedAtTime"
  proof
    assume a: "60000 \<le> now - issuedAtTime \<and> valid (fst ?V)"
    then have "passed (results (fst ?V) ! 2)"
      using len unfolding v by (simp add: list_all_length)
    with issued [OF that] a show False by simp
  qed
  show ?thesis
    using general issued stale by blast
qed

lemma iso_roundtrip_a: "dateParse isoPlatform (toISOString isoPlatform 1700000000000)
    = Some 1700000000000"
  unfolding isoPlatform_def by code_simp

lemma iso_roundtrip_b: "dateParse isoPlatform (toISOString isoPlatform 1700000059999)
    = Some 1700000059999"
  unfolding isoPlatform_def by code_simp

lemma iso_roundtrip_c: "dateParse isoPlatform (toISOString isoPlatform 1700000060000)
    = Some 1700000060000"
  unfolding isoPlatform_def by code_simp

theorem proof_date_check_without_commit_witness:
  "passed (results (fst (verifyCertificateData isoPlatform 1700000059999 fetchOk
      (createCertificate isoPlatform 1700000000000 1700000000001 demoHash alice None)
      demoHash None)) ! 2)
   \<and> \<not> passed (results (fst (verifyCertificateData isoPlatform 1700000060000 fetchOk
      (createCertificate isoPlatform 1700000000000 1700000000001 demoHash alice None)
      demoHash None)) ! 2)
   \<and> check (results (fst (verifyCertificateData isoPlatform 1700000060000 fetchOk
      (createCertificate isoPlatform 1700000000000 1700000000001 demoHash alice None)
      demoHash None)) ! 2) = ''Proof date''
   \<and> \<not> valid (fst (verifyCertificateData isoPlatform 1700000060000 fetchOk
      (createCertificate isoPlatform 1700000000000 1700000000001 demoHash alice None)
      demoHash None))"
proof -
  let ?c = "createCertificate isoPlatform 1700000000000 1700000000001 demoHash alice None"
  have s: "sha (firstCommit (proof' ?c)) = []"
    by (rule createCertificate_no_commit_sha)
  let ?Vb = "verifyCertificateData isoPlatform 1700000059999 fetchOk ?c demoHash None"
  let ?Vc = "verifyCertificateData isoPlatform 1700000060000 fetchOk ?c demoHash None"
  note b = proof_date_check_without_commit [OF iso_roundtrip_b,
            where issuedAtTime = 1700000000000 and issuedNow = 1700000000001
              and hashFn = demoHash and user = alice and fetch = fetchOk and token = None
              and cert = ?c]
  note c = proof_date_check_without_commit [OF iso_roundtrip_c,
            where issuedAtTime = 1700000000000 and issuedNow = 1700000000001
              and hashFn = demoHash and user = alice and fetch = fetchOk and token = None
              and cert = ?c]
  have 1: "passed (results (fst ?Vb) ! 2)"
    using conjunct2 [OF b] iso_roundtrip_a by simp
  have 2: "\<not> passed (results (fst ?Vc) ! 2)"
    using conjunct2 [OF c] iso_roundtrip_a by simp
  have 3: "\<not> valid (fst ?Vc)"
    using conjunct2 [OF c] iso_roundtrip_a by simp
  have 4: "check (results (fst ?Vc) ! 2) = ''Proof date''"
    using conjunct1 [OF c] s by blast
  show ?thesis
    using 1 2 3 4 by blast
qed

section \<open>The shape check\<close>

text \<open>
  C9 fails on the code: the shape check looks at the top level only, and
  \<^verbatim>\<open>typeof null\<close> is \<^verbatim>\<open>'object'\<close>. Both documents below are accepted by
  \<open>isValidCertificate\<close>, and on both the first statements of \<^verbatim>\<open>verifyCertificateData\<close>
  throw a \<^verbatim>\<open>TypeError\<close>, outside any \<^verbatim>\<open>try\<close> block.
\<close>

theorem shape_checked_document_throws:
  "isValidCertificate nullIdentityDocument
   \<and> readHashInputs nullIdentityDocument = Inl TypeError
   \<and> isValidCertificate noHashDocument
   \<and> readHashInputs noHashDocument = Inl TypeError"
  by (simp add: isValidCertificate_def readHashInputs_def nullIdentityDocument_def
        noHashDocument_def)

theorem shape_checked_document_throws_witness:
  "\<exists>d. isValidCertificate d \<and> readHashInputs d = Inl TypeError"
  using shape_checked_document_throws by blast

end
